theory Spec2Isabelle
  imports Main "HOL-Library.Word"
begin

section \<open>JavaScript values used by the authentication module\<close>

text \<open>
  A JavaScript string is a sequence of UTF-16 code units; \<open>.length\<close> counts code units.
  String literals of the source are ASCII and are embedded with \<open>js\<close>.
\<close>

type_synonym jsstr = "16 word list"

definition js :: "string \<Rightarrow> jsstr" where
  "js s = map of_char s"

text \<open>
  \<open>String.prototype.trim\<close> removes the ECMAScript WhiteSpace and LineTerminator code
  units from both ends of the string, and nothing from its middle.
\<close>

definition isWhiteSpace :: "16 word \<Rightarrow> bool" where
  "isWhiteSpace c =
     (c \<in> {0x9, 0xA, 0xB, 0xC, 0xD, 0x20, 0xA0, 0x1680, 0x2028, 0x2029,
           0x202F, 0x205F, 0x3000, 0xFEFF}
      \<or> (0x2000 \<le> c \<and> c \<le> 0x200A))"

definition js_trim :: "jsstr \<Rightarrow> jsstr" where
  "js_trim s = rev (dropWhile isWhiteSpace (rev (dropWhile isWhiteSpace s)))"

text \<open>The number of code units of a string that are not whitespace, wherever they occur.\<close>

definition count_non_whitespace :: "jsstr \<Rightarrow> nat" where
  "count_non_whitespace s = length (filter (\<lambda>c. \<not> isWhiteSpace c) s)"

text \<open>\<open>Array.prototype.join\<close> on a list of strings.\<close>

fun js_join :: "jsstr \<Rightarrow> jsstr list \<Rightarrow> jsstr" where
  "js_join sep [] = []"
| "js_join sep [x] = x"
| "js_join sep (x # y # ys) = x @ sep @ js_join sep (y # ys)"

text \<open>\<open>String.prototype.split\<close> with a one-code-unit separator.\<close>

fun js_split :: "16 word \<Rightarrow> jsstr \<Rightarrow> jsstr list" where
  "js_split sep [] = [[]]"
| "js_split sep (c # cs) =
     (if c = sep then [] # js_split sep cs
      else (case js_split sep cs of
              [] \<Rightarrow> [[c]]
            | w # ws \<Rightarrow> (c # w) # ws))"

text \<open>Indexing an array: \<open>undefined\<close> out of range.\<close>

definition js_index :: "'a list \<Rightarrow> nat \<Rightarrow> 'a option" where
  "js_index xs i = (if i < length xs then Some (xs ! i) else None)"

text \<open>
  Truthiness of a value that is a string or \<open>undefined\<close>: \<open>undefined\<close> and the empty
  string are falsy. \<open>a || d\<close> is \<open>a\<close> when \<open>a\<close> is truthy and \<open>d\<close> otherwise.
\<close>

definition truthy :: "jsstr option \<Rightarrow> bool" where
  "truthy v = (case v of None \<Rightarrow> False | Some s \<Rightarrow> s \<noteq> [])"

definition or_default :: "jsstr option \<Rightarrow> jsstr \<Rightarrow> jsstr" where
  "or_default v d = (case v of None \<Rightarrow> d | Some s \<Rightarrow> if s = [] then d else s)"

text \<open>An object literal: its property names in order, each with its (string) value.\<close>

type_synonym jsobj = "(string \<times> jsstr) list"

section \<open>Types of the authentication module\<close>

datatype UserType = VENDOR | BUYER

definition UserType_string :: "UserType \<Rightarrow> jsstr" where
  "UserType_string t = (case t of VENDOR \<Rightarrow> js ''VENDOR'' | BUYER \<Rightarrow> js ''BUYER'')"

record UserRegistrationData =
  email :: jsstr
  password :: jsstr
  name :: jsstr
  preferredLanguage :: jsstr
  userType :: UserType
  phoneNumber :: "jsstr option"

record LoginCredentials =
  login_email :: jsstr
  login_password :: jsstr

record AuthResult =
  success :: bool
  user :: "jsobj option"
  token :: "jsstr option"
  refreshToken :: "jsstr option"
  error :: "jsstr option"

text \<open>The part of \<open>process.env\<close> that the module reads.\<close>

record Env =
  JWT_SECRET :: "jsstr option"
  JWT_REFRESH_SECRET :: "jsstr option"
  NODE_ENV :: "jsstr option"

text \<open>
  The claims of a token as this module signs them: \<open>{userId, email}\<close>, and \<open>type\<close> on a
  refresh token. A token that verifies decodes to such claims.
\<close>

record Payload =
  payload_userId :: jsstr
  payload_email :: jsstr
  payload_type :: "jsstr option"

section \<open>The storage collaborator\<close>

text \<open>
  Modelled from the spec: the \<open>users\<close> table behind the object-relational mapper, whose
  schema is not part of the sources. A user has a generated \<open>id\<close>, a unique \<open>email\<close>, a
  \<open>passwordHash\<close>, a \<open>name\<close>, a \<open>userType\<close>, a \<open>preferredLanguage\<close> and an optional
  \<open>phoneNumber\<close>. \<open>findUnique\<close> returns the record with the given unique key or
  \<open>null\<close>; \<open>create\<close> inserts a record and fails when the email is taken; \<open>update\<close>
  fails when no record has the given id. Every call that reaches the collaborator is
  logged in \<open>calls\<close>.
\<close>

record User =
  user_id :: jsstr
  user_email :: jsstr
  user_passwordHash :: jsstr
  user_name :: jsstr
  user_userType :: UserType
  user_preferredLanguage :: jsstr
  user_phoneNumber :: "jsstr option"

record UserCreateInput =
  data_email :: jsstr
  data_passwordHash :: jsstr
  data_name :: jsstr
  data_userType :: UserType
  data_preferredLanguage :: jsstr
  data_phoneNumber :: "jsstr option"

datatype DbCall =
    FindUniqueByEmail jsstr
  | FindUniqueById jsstr
  | Create UserCreateInput
  | Update jsstr jsstr

datatype exn = UniqueConstraintFailed | RecordNotFound

record Prisma =
  rows :: "User list"
  calls :: "DbCall list"

text \<open>
  The libraries the module calls, as parameters: the email pattern of the schema
  validator, the password hash (with its cost) and its comparison, the signing and the
  verification of tokens (\<open>None\<close> when verification throws: bad signature, expired or
  malformed token), and the generation of record ids.
\<close>

record Collaborators =
  is_email :: "jsstr \<Rightarrow> bool"
  bcrypt_hash :: "jsstr \<Rightarrow> nat \<Rightarrow> jsstr"
  bcrypt_compare :: "jsstr \<Rightarrow> jsstr \<Rightarrow> bool"
  jwt_sign :: "Payload \<Rightarrow> jsstr \<Rightarrow> jsstr \<Rightarrow> jsstr"
  jwt_verify :: "jsstr \<Rightarrow> jsstr \<Rightarrow> Payload option"
  new_id :: "User list \<Rightarrow> jsstr"

definition findUnique_email :: "jsstr \<Rightarrow> Prisma \<Rightarrow> User option \<times> Prisma" where
  "findUnique_email e db =
     (find (\<lambda>u. user_email u = e) (rows db),
      db\<lparr>calls := calls db @ [FindUniqueByEmail e]\<rparr>)"

definition findUnique_id :: "jsstr \<Rightarrow> Prisma \<Rightarrow> User option \<times> Prisma" where
  "findUnique_id i db =
     (find (\<lambda>u. user_id u = i) (rows db),
      db\<lparr>calls := calls db @ [FindUniqueById i]\<rparr>)"

definition create :: "Collaborators \<Rightarrow> UserCreateInput \<Rightarrow> Prisma \<Rightarrow> (exn + User) \<times> Prisma" where
  "create lib d db =
     (let logged = calls db @ [Create d] in
      if find (\<lambda>u. user_email u = data_email d) (rows db) \<noteq> None
      then (Inl UniqueConstraintFailed, db\<lparr>calls := logged\<rparr>)
      else
        (let u = \<lparr>user_id = new_id lib (rows db),
                  user_email = data_email d,
                  user_passwordHash = data_passwordHash d,
                  user_name = data_name d,
                  user_userType = data_userType d,
                  user_preferredLanguage = data_preferredLanguage d,
                  user_phoneNumber = data_phoneNumber d\<rparr>
         in (Inr u, db\<lparr>rows := rows db @ [u], calls := logged\<rparr>)))"

definition update :: "jsstr \<Rightarrow> jsstr \<Rightarrow> Prisma \<Rightarrow> (exn + unit) \<times> Prisma" where
  "update i language db =
     (let logged = calls db @ [Update i language] in
      if find (\<lambda>u. user_id u = i) (rows db) = None
      then (Inl RecordNotFound, db\<lparr>calls := logged\<rparr>)
      else (Inr (),
            db\<lparr>rows := map (\<lambda>u. if user_id u = i
                                 then u\<lparr>user_preferredLanguage := language\<rparr> else u) (rows db),
               calls := logged\<rparr>))"

text \<open>
  The \<open>select\<close> clauses: registration and refresh read \<open>id\<close>, \<open>email\<close>, \<open>name\<close>,
  \<open>userType\<close> and \<open>preferredLanguage\<close>; login reads \<open>passwordHash\<close> as well.
\<close>

record UserView =
  sel_id :: jsstr
  sel_email :: jsstr
  sel_name :: jsstr
  sel_userType :: UserType
  sel_preferredLanguage :: jsstr

record LoginView = UserView +
  sel_passwordHash :: jsstr

definition select_public :: "User \<Rightarrow> UserView" where
  "select_public u =
     \<lparr>sel_id = user_id u, sel_email = user_email u, sel_name = user_name u,
      sel_userType = user_userType u, sel_preferredLanguage = user_preferredLanguage u\<rparr>"

definition select_login :: "User \<Rightarrow> LoginView" where
  "select_login u =
     \<lparr>sel_id = user_id u, sel_email = user_email u, sel_name = user_name u,
      sel_userType = user_userType u, sel_preferredLanguage = user_preferredLanguage u,
      sel_passwordHash = user_passwordHash u\<rparr>"

section \<open>The registration schema\<close>

text \<open>
  \<open>UserRegistrationSchema.safeParse\<close>: the messages of the issues found, field by field
  in the order of the schema; the parse succeeds when there is none. \<open>userType\<close> is one
  of the two values of its type, and \<open>phoneNumber\<close> is an optional string with no
  further check.
\<close>

definition UserRegistrationSchema :: "(jsstr \<Rightarrow> bool) \<Rightarrow> UserRegistrationData \<Rightarrow> jsstr list" where
  "UserRegistrationSchema isEmail userData =
     (if isEmail (email userData) then [] else [js ''Invalid email format''])
     @ (if 8 \<le> length (password userData) then []
        else [js ''Password must be at least 8 characters''])
     @ (if 2 \<le> length (name userData) then []
        else [js ''Name must be at least 2 characters''])
     @ (if 2 \<le> length (preferredLanguage userData) then []
        else [js ''Language code must be at least 2 characters''])"

section \<open>AuthService\<close>

definition failure :: "jsstr \<Rightarrow> AuthResult" where
  "failure msg =
     \<lparr>success = False, user = None, token = None, refreshToken = None, error = Some msg\<rparr>"

definition public_user :: "'a UserView_scheme \<Rightarrow> jsobj" where
  "public_user u =
     [(''id'', sel_id u),
      (''email'', sel_email u),
      (''name'', sel_name u),
      (''userType'', UserType_string (sel_userType u)),
      (''preferredLanguage'', sel_preferredLanguage u)]"

definition default_secret :: jsstr where
  "default_secret = js ''test-secret-key-for-development''"

definition default_refresh_secret :: jsstr where
  "default_refresh_secret = js ''test-refresh-secret-key-for-development''"

text \<open>
  The guard of \<open>register\<close> and \<open>login\<close>: a signing secret is missing and the deployment is
  a production one.
\<close>

definition secrets_missing_in_production :: "Env \<Rightarrow> bool" where
  "secrets_missing_in_production env =
     ((\<not> truthy (JWT_SECRET env) \<or> \<not> truthy (JWT_REFRESH_SECRET env))
      \<and> NODE_ENV env = Some (js ''production''))"

text \<open>
  \<open>register\<close> and \<open>login\<close> end with the same statements: the two secrets are read with
  their development defaults, the guard returns the configuration error, and otherwise
  the access token (15 minutes) and the refresh token (7 days, with the \<open>type\<close> marker)
  are signed and returned with the user object. \<open>issue_tokens\<close> is that common end.
\<close>

definition issue_tokens :: "Collaborators \<Rightarrow> Env \<Rightarrow> 'a UserView_scheme \<Rightarrow> AuthResult" where
  "issue_tokens lib env u =
     (let jwtSecret = or_default (JWT_SECRET env) default_secret;
          refreshSecret = or_default (JWT_REFRESH_SECRET env) default_refresh_secret
      in if secrets_missing_in_production env
         then failure (js ''Server configuration error'')
         else
           \<lparr>success = True,
            user = Some (public_user u),
            token = Some (jwt_sign lib
                      \<lparr>payload_userId = sel_id u, payload_email = sel_email u,
                       payload_type = None\<rparr>
                      jwtSecret (js ''15m'')),
            refreshToken = Some (jwt_sign lib
                      \<lparr>payload_userId = sel_id u, payload_email = sel_email u,
                       payload_type = Some (js ''refresh'')\<rparr>
                      refreshSecret (js ''7d'')),
            error = None\<rparr>)"

definition AuthService_register ::
  "Collaborators \<Rightarrow> Env \<Rightarrow> UserRegistrationData \<Rightarrow> Prisma \<Rightarrow> AuthResult \<times> Prisma" where
  "AuthService_register lib env userData db =
     (let issues = UserRegistrationSchema (is_email lib) userData in
      if issues \<noteq> []
      then (failure (js ''Invalid registration data: '' @ js_join (js '', '') issues), db)
      else if length (js_trim (password userData)) < 8
      then (failure (js ''Password must contain at least 8 non-whitespace characters''), db)
      else if length (js_trim (name userData)) < 2
      then (failure (js ''Name must contain at least 2 non-whitespace characters''), db)
      else
        (case findUnique_email (email userData) db of
           (Some existingUser, db1) \<Rightarrow>
             (failure (js ''User with this email already exists''), db1)
         | (None, db1) \<Rightarrow>
             (let passwordHash = bcrypt_hash lib (password userData) 12 in
              case create lib
                     \<lparr>data_email = email userData,
                      data_passwordHash = passwordHash,
                      data_name = name userData,
                      data_userType = userType userData,
                      data_preferredLanguage = preferredLanguage userData,
                      data_phoneNumber = phoneNumber userData\<rparr> db1 of
                (Inl e, db2) \<Rightarrow>
                  (failure (js ''Registration failed due to server error''), db2)
              | (Inr created, db2) \<Rightarrow>
                  (issue_tokens lib env (select_public created), db2))))"

definition AuthService_refreshToken ::
  "Collaborators \<Rightarrow> Env \<Rightarrow> jsstr \<Rightarrow> Prisma \<Rightarrow> AuthResult \<times> Prisma" where
  "AuthService_refreshToken lib env tok db =
     (let refreshSecret = or_default (JWT_REFRESH_SECRET env) default_refresh_secret;
          jwtSecret = or_default (JWT_SECRET env) default_secret
      in case jwt_verify lib tok refreshSecret of
           None \<Rightarrow> (failure (js ''Invalid or expired refresh token''), db)
         | Some decoded \<Rightarrow>
             if payload_type decoded \<noteq> Some (js ''refresh'')
             then (failure (js ''Invalid refresh token''), db)
             else
               (case findUnique_id (payload_userId decoded) db of
                  (None, db1) \<Rightarrow> (failure (js ''User not found''), db1)
                | (Some found, db1) \<Rightarrow>
                    (let u = select_public found in
                     (\<lparr>success = True,
                       user = Some (public_user u),
                       token = Some (jwt_sign lib
                                 \<lparr>payload_userId = sel_id u, payload_email = sel_email u,
                                  payload_type = None\<rparr>
                                 jwtSecret (js ''15m'')),
                       refreshToken = None,
                       error = None\<rparr>, db1))))"

definition AuthService_setLanguagePreference ::
  "jsstr \<Rightarrow> jsstr \<Rightarrow> Prisma \<Rightarrow> (exn + unit) \<times> Prisma" where
  "AuthService_setLanguagePreference userId language db = update userId language db"

definition AuthService_login ::
  "Collaborators \<Rightarrow> Env \<Rightarrow> LoginCredentials \<Rightarrow> Prisma \<Rightarrow> AuthResult \<times> Prisma" where
  "AuthService_login lib env credentials db =
     (case findUnique_email (login_email credentials) db of
        (None, db1) \<Rightarrow> (failure (js ''Invalid email or password''), db1)
      | (Some found, db1) \<Rightarrow>
          (let u = select_login found in
           if \<not> bcrypt_compare lib (login_password credentials) (sel_passwordHash u)
           then (failure (js ''Invalid email or password''), db1)
           else (issue_tokens lib env u, db1)))"

section \<open>The token verification middleware\<close>

text \<open>
  \<open>authenticateToken\<close> either answers the request itself, with a status and an error
  message, or attaches the decoded claims to the request and calls the next handler.
\<close>

datatype MiddlewareResult = Respond nat jsstr | Next Payload

definition authenticateToken ::
  "Collaborators \<Rightarrow> Env \<Rightarrow> jsstr option \<Rightarrow> MiddlewareResult" where
  "authenticateToken lib env authHeader =
     (let tok = (case authHeader of
                   None \<Rightarrow> None
                 | Some h \<Rightarrow> if h = [] then Some [] else js_index (js_split 0x20 h) 1)
      in case tok of
           None \<Rightarrow> Respond 401 (js ''Access token required'')
         | Some t \<Rightarrow>
             if t = [] then Respond 401 (js ''Access token required'')
             else
               (let jwtSecret = or_default (JWT_SECRET env) default_secret in
                case jwt_verify lib t jwtSecret of
                  None \<Rightarrow> Respond 403 (js ''Invalid or expired token'')
                | Some decoded \<Rightarrow> Next decoded))"

section \<open>Vocabulary of the properties\<close>

text \<open>
  A registration input passes validation when the schema reports no issue and the two
  further checks of \<open>register\<close> on the trimmed password and name pass.
\<close>

definition passes_validation :: "Collaborators \<Rightarrow> UserRegistrationData \<Rightarrow> bool" where
  "passes_validation lib userData =
     (UserRegistrationSchema (is_email lib) userData = []
      \<and> 8 \<le> length (js_trim (password userData))
      \<and> 2 \<le> length (js_trim (name userData)))"

definition email_persisted :: "Prisma \<Rightarrow> jsstr \<Rightarrow> bool" where
  "email_persisted db e = (e \<in> set (map user_email (rows db)))"

text \<open>The calls that write to the table.\<close>

fun is_write :: "DbCall \<Rightarrow> bool" where
  "is_write (Create d) = True"
| "is_write (Update i l) = True"
| "is_write (FindUniqueByEmail e) = False"
| "is_write (FindUniqueById i) = False"

text \<open>
  The rule of the client-side form for a phone number: \<open>/^\d{10}$/\<close> on the value with
  every non-digit removed.
\<close>

definition is_digit :: "16 word \<Rightarrow> bool" where
  "is_digit c = (0x30 \<le> c \<and> c \<le> 0x39)"

definition ten_digits_after_stripping :: "jsstr \<Rightarrow> bool" where
  "ten_digits_after_stripping p = (length (filter is_digit p) = 10)"

definition public_fields :: "string list" where
  "public_fields = [''id'', ''email'', ''name'', ''userType'', ''preferredLanguage'']"

definition only_public_fields :: "AuthResult \<Rightarrow> bool" where
  "only_public_fields r =
     (case user r of
        None \<Rightarrow> False
      | Some u \<Rightarrow> map fst u = public_fields \<and> ''passwordHash'' \<notin> set (map fst u))"

section \<open>Test doubles and sample data\<close>

text \<open>
  Stand-ins for the libraries, used only to run the module on concrete inputs: an email
  is a string with an at sign, a hash is the password behind a fixed prefix, and a token
  is its secret, its type, its user id and its email separated by vertical bars.
\<close>

definition mock_sign :: "Payload \<Rightarrow> jsstr \<Rightarrow> jsstr \<Rightarrow> jsstr" where
  "mock_sign p secret expiresIn =
     js_join (js ''|'')
       [secret, (case payload_type p of None \<Rightarrow> js ''access'' | Some t \<Rightarrow> t),
        payload_userId p, payload_email p]"

definition mock_verify :: "jsstr \<Rightarrow> jsstr \<Rightarrow> Payload option" where
  "mock_verify tok secret =
     (case js_split 0x7C tok of
        [s, t, i, e] \<Rightarrow>
          if s = secret
          then Some \<lparr>payload_userId = i, payload_email = e,
                     payload_type = (if t = js ''access'' then None else Some t)\<rparr>
          else None
      | _ \<Rightarrow> None)"

definition mock :: Collaborators where
  "mock =
     \<lparr>is_email = (\<lambda>s. 0x40 \<in> set s),
      bcrypt_hash = (\<lambda>p cost. js ''$2a$'' @ p),
      bcrypt_compare = (\<lambda>p h. h = js ''$2a$'' @ p),
      jwt_sign = mock_sign,
      jwt_verify = mock_verify,
      new_id = (\<lambda>us. js ''user-'' @ replicate (length us) 0x31)\<rparr>"

definition ann :: UserRegistrationData where
  "ann = \<lparr>email = js ''a@test.io'', password = js ''password123'', name = js ''Ann'',
          preferredLanguage = js ''hi'', userType = BUYER, phoneNumber = None\<rparr>"

definition ann_with_phone_123 :: UserRegistrationData where
  "ann_with_phone_123 = ann\<lparr>phoneNumber := Some (js ''123'')\<rparr>"

definition ann_spaced_password :: UserRegistrationData where
  "ann_spaced_password = ann\<lparr>password := js ''a b c d e''\<rparr>"

definition ann_short_password :: UserRegistrationData where
  "ann_short_password = ann\<lparr>password := js ''short''\<rparr>"

definition ann_other_password :: UserRegistrationData where
  "ann_other_password = ann\<lparr>password := js ''abc''\<rparr>"

definition unknown_login :: LoginCredentials where
  "unknown_login = \<lparr>login_email = js ''nobody@test.io'', login_password = js ''password123''\<rparr>"

definition wrong_password_login :: LoginCredentials where
  "wrong_password_login = \<lparr>login_email = js ''a@test.io'', login_password = js ''wrong''\<rparr>"

definition ann_login :: LoginCredentials where
  "ann_login = \<lparr>login_email = js ''a@test.io'', login_password = js ''password123''\<rparr>"

definition empty_db :: Prisma where
  "empty_db = \<lparr>rows = [], calls = []\<rparr>"

definition test_env :: Env where
  "test_env =
     \<lparr>JWT_SECRET = Some (js ''test-jwt-secret''),
      JWT_REFRESH_SECRET = Some (js ''test-jwt-refresh-secret''),
      NODE_ENV = Some (js ''test'')\<rparr>"


definition production_without_secrets :: Env where
  "production_without_secrets =
     \<lparr>JWT_SECRET = None, JWT_REFRESH_SECRET = None, NODE_ENV = Some (js ''production'')\<rparr>"

text \<open>The table after Ann has registered.\<close>

definition db_with_ann :: Prisma where
  "db_with_ann = snd (AuthService_register mock test_env ann empty_db)"

definition ann_row :: User where
  "ann_row =
     \<lparr>user_id = js ''user-'', user_email = js ''a@test.io'',
      user_passwordHash = js ''$2a$password123'', user_name = js ''Ann'',
      user_userType = BUYER, user_preferredLanguage = js ''hi'', user_phoneNumber = None\<rparr>"

definition refresh_payload :: "jsstr \<Rightarrow> Payload" where
  "refresh_payload i =
     \<lparr>payload_userId = i, payload_email = js ''a@test.io'',
      payload_type = Some (js ''refresh'')\<rparr>"

definition access_payload :: "jsstr \<Rightarrow> Payload" where
  "access_payload i =
     \<lparr>payload_userId = i, payload_email = js ''a@test.io'', payload_type = None\<rparr>"

definition ann_refresh_token :: jsstr where
  "ann_refresh_token =
     mock_sign (refresh_payload (js ''user-'')) (js ''test-jwt-refresh-secret'') (js ''7d'')"



definition ann_refresh_token_default :: jsstr where
  "ann_refresh_token_default =
     mock_sign (refresh_payload (js ''user-'')) default_refresh_secret (js ''7d'')"

section \<open>Auxiliary facts\<close>

lemmas eval_defs =
  AuthService_register_def AuthService_login_def AuthService_refreshToken_def
  mock_def mock_sign_def mock_verify_def test_env_def production_without_secrets_def
  ann_def empty_db_def UserRegistrationSchema_def passes_validation_def email_persisted_def
  js_def js_trim_def isWhiteSpace_def findUnique_email_def findUnique_id_def create_def
  issue_tokens_def secrets_missing_in_production_def failure_def public_user_def
  truthy_def or_default_def select_public_def select_login_def Let_def
  default_secret_def default_refresh_secret_def UserType_string_def

lemma find_email_None:
  "\<not> email_persisted db e \<Longrightarrow> find (\<lambda>u. user_email u = e) (rows db) = None"
  by (auto simp: email_persisted_def find_None_iff)

lemma find_email_Some:
  "email_persisted db e \<Longrightarrow> \<exists>u. find (\<lambda>u. user_email u = e) (rows db) = Some u"
  by (cases "find (\<lambda>u. user_email u = e) (rows db)")
     (auto simp: email_persisted_def find_None_iff)

lemma ann_passes_validation: "passes_validation mock ann"
  by (simp add: eval_defs)

lemma ann_not_persisted: "\<not> email_persisted empty_db (email ann)"
  by (simp add: email_persisted_def empty_db_def)

lemma db_with_ann_rows: "rows db_with_ann = [ann_row]"
  by (simp add: db_with_ann_def ann_row_def eval_defs)

lemma ann_persisted: "email_persisted db_with_ann (js ''a@test.io'')"
  by (simp add: email_persisted_def db_with_ann_rows ann_row_def)

lemma db_with_ann_find_id:
  "find (\<lambda>u. user_id u = js ''user-'') (rows db_with_ann) = Some ann_row"
  by (simp add: db_with_ann_rows ann_row_def)


lemma refresh_payload_simps:
  "payload_type (refresh_payload i) = Some (js ''refresh'')"
  "payload_userId (refresh_payload i) = i"
  by (simp_all add: refresh_payload_def)

lemma mock_verify_ann:
  "mock_verify ann_refresh_token (js ''test-jwt-refresh-secret'')
     = Some (refresh_payload (js ''user-''))"
  by (simp add: ann_refresh_token_def mock_verify_def mock_sign_def refresh_payload_def js_def)




lemma mock_verify_default:
  "mock_verify ann_refresh_token_default default_refresh_secret
     = Some (refresh_payload (js ''user-''))"
  by (simp add: ann_refresh_token_default_def mock_verify_def mock_sign_def refresh_payload_def
      default_refresh_secret_def js_def)

lemma test_env_refresh_secret:
  "or_default (JWT_REFRESH_SECRET test_env) default_refresh_secret
     = js ''test-jwt-refresh-secret''"
  by (simp add: or_default_def test_env_def js_def)


lemma test_env_configured: "\<not> secrets_missing_in_production test_env"
  by (simp add: secrets_missing_in_production_def test_env_def truthy_def js_def)

text \<open>With a secret missing in production, \<open>register\<close> and \<open>login\<close> issue no token.\<close>

lemma issue_tokens_fails_closed:
  "secrets_missing_in_production env \<Longrightarrow>
   issue_tokens lib env u = failure (js ''Server configuration error'')"
  by (simp add: issue_tokens_def)

lemma issue_tokens_user:
  "success (issue_tokens lib env u) \<Longrightarrow> user (issue_tokens lib env u) = Some (public_user u)"
  by (simp add: issue_tokens_def failure_def Let_def split: if_splits)

lemma public_user_fields: "map fst (public_user u) = public_fields"
  by (simp add: public_user_def public_fields_def)

lemma only_public_fields_public_user:
  "user r = Some (public_user u) \<Longrightarrow> only_public_fields r"
  by (simp add: only_public_fields_def public_user_fields del: set_map)
     (simp add: public_fields_def)

lemma register_success_user:
  "success (fst (AuthService_register lib env userData db)) \<Longrightarrow>
   \<exists>u. user (fst (AuthService_register lib env userData db)) = Some (public_user (u::UserView))"
  by (auto simp: AuthService_register_def failure_def Let_def
      split: if_splits prod.splits option.splits sum.splits dest: issue_tokens_user)

lemma login_success_user:
  "success (fst (AuthService_login lib env credentials db)) \<Longrightarrow>
   \<exists>u. user (fst (AuthService_login lib env credentials db)) = Some (public_user (u::LoginView))"
  by (auto simp: AuthService_login_def failure_def Let_def
      split: if_splits prod.splits option.splits dest: issue_tokens_user)

lemma refreshToken_success_user:
  "success (fst (AuthService_refreshToken lib env tok db)) \<Longrightarrow>
   \<exists>u. user (fst (AuthService_refreshToken lib env tok db)) = Some (public_user (u::UserView))"
  by (auto simp: AuthService_refreshToken_def failure_def Let_def
      split: if_splits prod.splits option.splits)

lemma js_split_no_separator: "sep \<notin> set s \<Longrightarrow> js_split sep s = [s]"
  by (induction s) auto

lemma js_split_first: "sep \<notin> set a \<Longrightarrow> js_split sep (a @ sep # s) = a # js_split sep s"
  by (induction a) (auto split: list.splits)

text \<open>
  The middleware has no production guard either: with \<open>JWT_SECRET\<close> unset it verifies a
  bearer token against the development default, whatever \<open>NODE_ENV\<close> is.
\<close>

lemma authenticateToken_default_secret:
  assumes "JWT_SECRET env = None"
    and "t \<noteq> []" and "0x20 \<notin> set t"
    and "jwt_verify lib t default_secret = Some p"
  shows "authenticateToken lib env (Some (js ''Bearer '' @ t)) = Next p"
proof -
  have "js ''Bearer '' @ t = js ''Bearer'' @ 0x20 # t" by (simp add: js_def)
  moreover have "0x20 \<notin> set (js ''Bearer'')" by (simp add: js_def)
  ultimately have "js_split 0x20 (js ''Bearer '' @ t) = [js ''Bearer'', t]"
    using assms(3) by (simp add: js_split_first js_split_no_separator)
  with assms show ?thesis
    by (simp add: authenticateToken_def js_index_def or_default_def js_def)
qed

section \<open>Registration of a valid input\<close>

text \<open>
  A valid input with a new email does not always register: in a production deployment
  with no signing secret configured, \<open>register\<close> returns the configuration error.
\<close>

theorem register_valid_counterexample:
  "passes_validation mock ann \<and> \<not> email_persisted empty_db (email ann)
   \<and> \<not> success (fst (AuthService_register mock production_without_secrets ann empty_db))"
  by (simp add: eval_defs)

text \<open>
  Claim C1, as amended: for every registration input that passes validation and whose
  email is not already persisted, when the deployment is not a production one with a
  signing secret missing, \<open>register\<close> returns a success result whose user carries the
  submitted \<open>email\<close>, \<open>name\<close>, \<open>userType\<close> and \<open>preferredLanguage\<close>, together with an
  access token and a refresh token, and no error.
\<close>

theorem register_valid_succeeds:
  assumes "passes_validation lib userData"
    and "\<not> email_persisted db (email userData)"
    and "\<not> secrets_missing_in_production env"
  shows "\<exists>i a r. fst (AuthService_register lib env userData db) =
           \<lparr>success = True,
            user = Some [(''id'', i), (''email'', email userData), (''name'', name userData),
                         (''userType'', UserType_string (userType userData)),
                         (''preferredLanguage'', preferredLanguage userData)],
            token = Some a, refreshToken = Some r, error = None\<rparr>"
  using assms(1,3) find_email_None[OF assms(2)]
  by (simp add: AuthService_register_def passes_validation_def findUnique_email_def create_def
      issue_tokens_def select_public_def public_user_def Let_def)

theorem register_valid_succeeds_witness:
  "passes_validation mock ann \<and> \<not> email_persisted empty_db (email ann)
   \<and> \<not> secrets_missing_in_production test_env
   \<and> (\<exists>i a r. fst (AuthService_register mock test_env ann empty_db) =
           \<lparr>success = True,
            user = Some [(''id'', i), (''email'', js ''a@test.io''), (''name'', js ''Ann''),
                         (''userType'', js ''BUYER''), (''preferredLanguage'', js ''hi'')],
            token = Some a, refreshToken = Some r, error = None\<rparr>)"
  using register_valid_succeeds[OF ann_passes_validation ann_not_persisted test_env_configured]
    ann_passes_validation ann_not_persisted test_env_configured
  by (simp add: ann_def UserType_string_def)

section \<open>Failed logins\<close>

text \<open>
  Claim C2: a login with an email that matches no persisted user and a login with an
  existing email but a password that does not match the stored hash both return the
  failure result with the message \<open>Invalid email or password\<close>, so the two results are
  the same.
\<close>

theorem login_failures_indistinguishable:
  assumes "\<not> email_persisted db1 (login_email c1)"
    and "find (\<lambda>u. user_email u = login_email c2) (rows db2) = Some u"
    and "\<not> bcrypt_compare lib (login_password c2) (user_passwordHash u)"
  shows "fst (AuthService_login lib env1 c1 db1) = failure (js ''Invalid email or password'')
       \<and> fst (AuthService_login lib env2 c2 db2) = failure (js ''Invalid email or password'')
       \<and> fst (AuthService_login lib env1 c1 db1) = fst (AuthService_login lib env2 c2 db2)"
  using assms(2,3) find_email_None[OF assms(1)]
  by (simp add: AuthService_login_def findUnique_email_def select_login_def)

theorem login_failures_indistinguishable_witness:
  "\<not> email_persisted db_with_ann (login_email unknown_login)
   \<and> email_persisted db_with_ann (login_email wrong_password_login)
   \<and> \<not> bcrypt_compare mock (login_password wrong_password_login) (user_passwordHash ann_row)
   \<and> fst (AuthService_login mock test_env unknown_login db_with_ann)
       = fst (AuthService_login mock test_env wrong_password_login db_with_ann)
   \<and> error (fst (AuthService_login mock test_env wrong_password_login db_with_ann))
       = Some (js ''Invalid email or password'')"
proof -
  have a: "\<not> email_persisted db_with_ann (login_email unknown_login)"
    by (simp add: email_persisted_def db_with_ann_rows ann_row_def unknown_login_def js_def)
  have b: "find (\<lambda>u. user_email u = login_email wrong_password_login) (rows db_with_ann)
             = Some ann_row"
    by (simp add: db_with_ann_rows ann_row_def wrong_password_login_def)
  have c: "\<not> bcrypt_compare mock (login_password wrong_password_login)
               (user_passwordHash ann_row)"
    by (simp add: mock_def wrong_password_login_def ann_row_def js_def)
  have d: "email_persisted db_with_ann (login_email wrong_password_login)"
    using ann_persisted by (simp add: wrong_password_login_def)
  from login_failures_indistinguishable[OF a b c, of test_env test_env] a c d show ?thesis
    by (simp add: failure_def)
qed

section \<open>Signing secrets in production\<close>

text \<open>
  Claim C3: in a production deployment with \<open>JWT_SECRET\<close> or \<open>JWT_REFRESH_SECRET\<close>
  unset, no operation should sign or verify with a development default. \<open>register\<close>
  and \<open>login\<close> have the guard (\<open>issue_tokens_fails_closed\<close>); \<open>refreshToken\<close> has none:
  with both secrets unset in production, a token that verifies against the default
  refresh secret, for a user that exists, is answered with a success result whose access
  token is signed with the default secret.
\<close>

theorem refreshToken_production_default_secrets:
  assumes "NODE_ENV env = Some (js ''production'')"
    and "JWT_SECRET env = None" and "JWT_REFRESH_SECRET env = None"
    and "jwt_verify lib tok default_refresh_secret = Some p"
    and "payload_type p = Some (js ''refresh'')"
    and "find (\<lambda>u. user_id u = payload_userId p) (rows db) = Some u"
  shows "fst (AuthService_refreshToken lib env tok db) =
           \<lparr>success = True,
            user = Some (public_user (select_public u)),
            token = Some (jwt_sign lib
                      \<lparr>payload_userId = user_id u, payload_email = user_email u,
                       payload_type = None\<rparr>
                      default_secret (js ''15m'')),
            refreshToken = None, error = None\<rparr>"
  using assms
  by (simp add: AuthService_refreshToken_def findUnique_id_def or_default_def select_public_def)

theorem refreshToken_production_default_secrets_witness:
  "NODE_ENV production_without_secrets = Some (js ''production'')
   \<and> JWT_SECRET production_without_secrets = None
   \<and> JWT_REFRESH_SECRET production_without_secrets = None
   \<and> success (fst (AuthService_refreshToken mock production_without_secrets
                      ann_refresh_token_default db_with_ann))
   \<and> token (fst (AuthService_refreshToken mock production_without_secrets
                    ann_refresh_token_default db_with_ann))
      = Some (mock_sign (access_payload (js ''user-'')) default_secret (js ''15m''))"
proof -
  have n: "NODE_ENV production_without_secrets = Some (js ''production'')"
    and j: "JWT_SECRET production_without_secrets = None"
    and k: "JWT_REFRESH_SECRET production_without_secrets = None"
    by (simp_all add: production_without_secrets_def)
  have v: "jwt_verify mock ann_refresh_token_default default_refresh_secret
             = Some (refresh_payload (js ''user-''))"
    by (simp add: mock_def mock_verify_default)
  have f: "find (\<lambda>u. user_id u = payload_userId (refresh_payload (js ''user-'')))
             (rows db_with_ann) = Some ann_row"
    by (simp add: refresh_payload_simps db_with_ann_find_id)
  from refreshToken_production_default_secrets[OF n j k v refresh_payload_simps(1) f] n j k
  show ?thesis
    by (simp add: mock_def access_payload_def ann_row_def)
qed

section \<open>The phone number\<close>

text \<open>
  Claim C4: a registration whose \<open>phoneNumber\<close> is present should succeed only if the
  phone number is exactly ten digits after stripping the non-digit characters, and fail
  with a validation error otherwise. The client-side form applies that rule; the schema
  and \<open>register\<close> do not. For every input that passes the validation \<open>register\<close>
  does perform, with a new email and the signing configuration in order, a present phone
  number that is not ten digits after stripping is accepted: the result is a success and
  the phone number is stored as submitted.
\<close>

theorem register_accepts_invalid_phoneNumber:
  assumes "passes_validation lib userData"
    and "phoneNumber userData = Some p"
    and "\<not> ten_digits_after_stripping p"
    and "\<not> email_persisted db (email userData)"
    and "\<not> secrets_missing_in_production env"
  shows "success (fst (AuthService_register lib env userData db))
       \<and> error (fst (AuthService_register lib env userData db)) = None
       \<and> map user_phoneNumber (rows (snd (AuthService_register lib env userData db)))
           = map user_phoneNumber (rows db) @ [Some p]"
  using assms(1,2,5) find_email_None[OF assms(4)]
  by (simp add: AuthService_register_def passes_validation_def findUnique_email_def create_def
      issue_tokens_def Let_def)

theorem register_accepts_invalid_phoneNumber_witness:
  "passes_validation mock ann_with_phone_123
   \<and> phoneNumber ann_with_phone_123 = Some (js ''123'')
   \<and> \<not> ten_digits_after_stripping (js ''123'')
   \<and> \<not> email_persisted empty_db (email ann_with_phone_123)
   \<and> \<not> secrets_missing_in_production test_env
   \<and> success (fst (AuthService_register mock test_env ann_with_phone_123 empty_db))
   \<and> map user_phoneNumber
        (rows (snd (AuthService_register mock test_env ann_with_phone_123 empty_db)))
       = [Some (js ''123'')]"
proof -
  have v: "passes_validation mock ann_with_phone_123"
    using ann_passes_validation
    by (simp add: passes_validation_def UserRegistrationSchema_def ann_with_phone_123_def)
  have p: "phoneNumber ann_with_phone_123 = Some (js ''123'')"
    by (simp add: ann_with_phone_123_def)
  have t: "\<not> ten_digits_after_stripping (js ''123'')"
    by (simp add: ten_digits_after_stripping_def is_digit_def js_def)
  have e: "\<not> email_persisted empty_db (email ann_with_phone_123)"
    using ann_not_persisted by (simp add: ann_with_phone_123_def)
  from register_accepts_invalid_phoneNumber[OF v p t e test_env_configured]
       v p t e test_env_configured
  show ?thesis by (simp add: empty_db_def)
qed

section \<open>The password length\<close>

text \<open>
  Trimming removes whitespace only at the two ends, so the trimmed length is never below
  the number of non-whitespace code units, and exceeds it when whitespace lies between
  them.
\<close>

lemma filter_dropWhile_whitespace:
  "filter (\<lambda>c. \<not> isWhiteSpace c) (dropWhile isWhiteSpace s)
     = filter (\<lambda>c. \<not> isWhiteSpace c) s"
  by (induction s) auto

lemma count_non_whitespace_trim:
  "count_non_whitespace (js_trim s) = count_non_whitespace s"
proof -
  have "filter (\<lambda>c. \<not> isWhiteSpace c) (js_trim s)
          = rev (filter (\<lambda>c. \<not> isWhiteSpace c) (dropWhile isWhiteSpace (rev (dropWhile isWhiteSpace s))))"
    by (simp add: js_trim_def rev_filter)
  also have "\<dots> = rev (filter (\<lambda>c. \<not> isWhiteSpace c) (rev (dropWhile isWhiteSpace s)))"
    by (simp only: filter_dropWhile_whitespace)
  also have "\<dots> = filter (\<lambda>c. \<not> isWhiteSpace c) (dropWhile isWhiteSpace s)"
    by (simp add: rev_filter)
  also have "\<dots> = filter (\<lambda>c. \<not> isWhiteSpace c) s"
    by (rule filter_dropWhile_whitespace)
  finally show ?thesis by (simp add: count_non_whitespace_def)
qed

lemma count_non_whitespace_le_trim: "count_non_whitespace s \<le> length (js_trim s)"
proof -
  have "count_non_whitespace (js_trim s) \<le> length (js_trim s)"
    by (simp add: count_non_whitespace_def)
  then show ?thesis by (simp add: count_non_whitespace_trim)
qed

text \<open>
  Claim C5: a registration whose password contains fewer than eight non-whitespace
  characters, wherever they occur, should be a validation failure; the message of the
  check says so. The check compares the trimmed length instead, which counts the
  whitespace inside the password. For every input that passes the validation
  \<open>register\<close> does perform, with a new email and the signing configuration in order,
  a password with fewer than eight non-whitespace code units is accepted: the result is a
  success, and the password is hashed and stored.
\<close>

theorem register_accepts_interior_whitespace:
  assumes "passes_validation lib userData"
    and "count_non_whitespace (password userData) < 8"
    and "\<not> email_persisted db (email userData)"
    and "\<not> secrets_missing_in_production env"
  shows "success (fst (AuthService_register lib env userData db))
       \<and> error (fst (AuthService_register lib env userData db)) = None
       \<and> map user_passwordHash (rows (snd (AuthService_register lib env userData db)))
           = map user_passwordHash (rows db) @ [bcrypt_hash lib (password userData) 12]"
  using assms(1,4) find_email_None[OF assms(3)]
  by (simp add: AuthService_register_def passes_validation_def findUnique_email_def create_def
      issue_tokens_def Let_def)

theorem register_accepts_interior_whitespace_witness:
  "passes_validation mock ann_spaced_password
   \<and> count_non_whitespace (password ann_spaced_password) = 5
   \<and> length (js_trim (password ann_spaced_password)) = 9
   \<and> \<not> email_persisted empty_db (email ann_spaced_password)
   \<and> \<not> secrets_missing_in_production test_env
   \<and> success (fst (AuthService_register mock test_env ann_spaced_password empty_db))"
proof -
  have v: "passes_validation mock ann_spaced_password"
    by (simp add: ann_spaced_password_def eval_defs)
  have c: "count_non_whitespace (password ann_spaced_password) = 5"
    by (simp add: ann_spaced_password_def count_non_whitespace_def isWhiteSpace_def js_def)
  have l: "length (js_trim (password ann_spaced_password)) = 9"
    by (simp add: ann_spaced_password_def js_trim_def isWhiteSpace_def js_def)
  have e: "\<not> email_persisted empty_db (email ann_spaced_password)"
    using ann_not_persisted by (simp add: ann_spaced_password_def)
  from c have c8: "count_non_whitespace (password ann_spaced_password) < 8" by simp
  from register_accepts_interior_whitespace[OF v c8 e test_env_configured]
       v c l e test_env_configured
  show ?thesis by simp
qed

text \<open>
  Claim C6: for every registration input whose password is shorter than eight
  characters, \<open>register\<close> returns a failure result, with no user and no token, and the
  storage collaborator is left as it was: its records and its log of calls are unchanged,
  so neither a create nor an update (nor a lookup) reached it.
\<close>

theorem register_short_password_no_write:
  assumes "length (password userData) < 8"
  shows "\<not> success (fst (AuthService_register lib env userData db))
       \<and> user (fst (AuthService_register lib env userData db)) = None
       \<and> token (fst (AuthService_register lib env userData db)) = None
       \<and> snd (AuthService_register lib env userData db) = db"
  using assms
  by (simp add: AuthService_register_def UserRegistrationSchema_def failure_def Let_def)

theorem register_short_password_no_write_witness:
  "length (password ann_other_password) = 3
   \<and> \<not> success (fst (AuthService_register mock test_env ann_other_password db_with_ann))
   \<and> snd (AuthService_register mock test_env ann_other_password db_with_ann) = db_with_ann"
proof -
  have l: "length (password ann_other_password) < 8"
    by (simp add: ann_other_password_def js_def)
  from register_short_password_no_write[OF l, of mock test_env db_with_ann] show ?thesis
    by (simp add: ann_other_password_def js_def)
qed

section \<open>Duplicate email\<close>

text \<open>
  An input whose email is persisted but whose password is too short is rejected by the
  schema before the lookup: the error is the validation error, not the duplicate-email
  one.
\<close>

theorem register_duplicate_counterexample:
  "email_persisted db_with_ann (email ann_short_password)
   \<and> error (fst (AuthService_register mock test_env ann_short_password db_with_ann))
       = Some (js ''Invalid registration data: Password must be at least 8 characters'')
   \<and> js ''Invalid registration data: Password must be at least 8 characters''
       \<noteq> js ''User with this email already exists''"
  by (simp add: ann_short_password_def email_persisted_def db_with_ann_rows ann_row_def
      eval_defs)

text \<open>
  Claim C7, as amended: for every registration input whose email already matches a
  persisted user, \<open>register\<close> returns a failure result, the records are unchanged and no
  create (or update) call reaches the storage collaborator; when the input also passes
  validation, the error is the duplicate-email error \<open>User with this email already exists\<close>.
\<close>

theorem register_duplicate_email:
  assumes "email_persisted db (email userData)"
  shows "\<not> success (fst (AuthService_register lib env userData db))
       \<and> rows (snd (AuthService_register lib env userData db)) = rows db
       \<and> filter is_write (calls (snd (AuthService_register lib env userData db)))
           = filter is_write (calls db)
       \<and> (passes_validation lib userData \<longrightarrow>
            error (fst (AuthService_register lib env userData db))
              = Some (js ''User with this email already exists''))"
proof -
  from find_email_Some[OF assms] obtain u
    where "find (\<lambda>u. user_email u = email userData) (rows db) = Some u" by blast
  then show ?thesis
    by (simp add: AuthService_register_def passes_validation_def findUnique_email_def
        failure_def Let_def)
qed

theorem register_duplicate_email_witness:
  "email_persisted db_with_ann (email ann) \<and> passes_validation mock ann
   \<and> error (fst (AuthService_register mock test_env ann db_with_ann))
       = Some (js ''User with this email already exists'')
   \<and> rows (snd (AuthService_register mock test_env ann db_with_ann)) = rows db_with_ann
   \<and> filter is_write (calls (snd (AuthService_register mock test_env ann db_with_ann)))
       = filter is_write (calls db_with_ann)"
proof -
  have p: "email_persisted db_with_ann (email ann)"
    using ann_persisted by (simp add: ann_def)
  from register_duplicate_email[OF p, of mock test_env] p ann_passes_validation
  show ?thesis by simp
qed

section \<open>Token refresh\<close>



section \<open>The user object of a result\<close>

text \<open>
  Claim C9: in every success result of \<open>register\<close>, \<open>login\<close> and \<open>refreshToken\<close>, the
  user object has exactly the properties \<open>id\<close>, \<open>email\<close>, \<open>name\<close>, \<open>userType\<close> and
  \<open>preferredLanguage\<close>; it has no \<open>passwordHash\<close> property, although \<open>login\<close> selects
  the stored hash.
\<close>

theorem results_expose_public_fields_only:
  "(success (fst (AuthService_register lib env userData db)) \<longrightarrow>
      only_public_fields (fst (AuthService_register lib env userData db)))
   \<and> (success (fst (AuthService_login lib env credentials db)) \<longrightarrow>
      only_public_fields (fst (AuthService_login lib env credentials db)))
   \<and> (success (fst (AuthService_refreshToken lib env tok db)) \<longrightarrow>
      only_public_fields (fst (AuthService_refreshToken lib env tok db)))"
  using register_success_user[of lib env userData db]
    login_success_user[of lib env credentials db]
    refreshToken_success_user[of lib env tok db]
  by (blast intro: only_public_fields_public_user)

theorem results_expose_public_fields_only_witness:
  "success (fst (AuthService_register mock test_env ann empty_db))
   \<and> only_public_fields (fst (AuthService_register mock test_env ann empty_db))
   \<and> success (fst (AuthService_login mock test_env ann_login db_with_ann))
   \<and> only_public_fields (fst (AuthService_login mock test_env ann_login db_with_ann))
   \<and> success (fst (AuthService_refreshToken mock test_env ann_refresh_token db_with_ann))
   \<and> only_public_fields (fst (AuthService_refreshToken mock test_env ann_refresh_token
                                 db_with_ann))"
proof -
  have 1: "success (fst (AuthService_register mock test_env ann empty_db))"
    by (simp add: eval_defs)
  have 2: "success (fst (AuthService_login mock test_env ann_login db_with_ann))"
    by (simp add: AuthService_login_def findUnique_email_def db_with_ann_rows ann_row_def
        ann_login_def select_login_def mock_def issue_tokens_def test_env_configured js_def)
  have 3: "success (fst (AuthService_refreshToken mock test_env ann_refresh_token db_with_ann))"
    by (simp add: AuthService_refreshToken_def test_env_refresh_secret mock_def mock_verify_ann
        refresh_payload_simps findUnique_id_def db_with_ann_find_id Let_def)
  note a = results_expose_public_fields_only[where lib = mock and env = test_env
      and userData = ann and db = empty_db]
  note b = results_expose_public_fields_only[where lib = mock and env = test_env
      and credentials = ann_login and tok = ann_refresh_token and db = db_with_ann]
  from a b 1 2 3 show ?thesis by simp
qed

section \<open>Registration in production without signing secrets\<close>

text \<open>
  Claim C10: when \<open>NODE_ENV\<close> is \<open>production\<close> and \<open>JWT_SECRET\<close> or
  \<open>JWT_REFRESH_SECRET\<close> is unset, \<open>register\<close> on a valid input with a new email looks
  the email up, creates the user record and only then returns the failure
  \<open>Server configuration error\<close>: the new record is in the table after the failure.
\<close>

theorem register_production_config_error_after_create:
  assumes "passes_validation lib userData"
    and "\<not> email_persisted db (email userData)"
    and "NODE_ENV env = Some (js ''production'')"
    and "JWT_SECRET env = None \<or> JWT_REFRESH_SECRET env = None"
  shows "fst (AuthService_register lib env userData db)
           = failure (js ''Server configuration error'')
       \<and> rows (snd (AuthService_register lib env userData db)) =
           rows db @ [\<lparr>user_id = new_id lib (rows db),
                        user_email = email userData,
                        user_passwordHash = bcrypt_hash lib (password userData) 12,
                        user_name = name userData,
                        user_userType = userType userData,
                        user_preferredLanguage = preferredLanguage userData,
                        user_phoneNumber = phoneNumber userData\<rparr>]
       \<and> calls (snd (AuthService_register lib env userData db)) =
           calls db @ [FindUniqueByEmail (email userData),
                       Create \<lparr>data_email = email userData,
                               data_passwordHash = bcrypt_hash lib (password userData) 12,
                               data_name = name userData,
                               data_userType = userType userData,
                               data_preferredLanguage = preferredLanguage userData,
                               data_phoneNumber = phoneNumber userData\<rparr>]"
proof -
  have m: "secrets_missing_in_production env"
    using assms(3,4) by (auto simp: secrets_missing_in_production_def truthy_def)
  show ?thesis
    using assms(1) find_email_None[OF assms(2)] m
    by (simp add: AuthService_register_def passes_validation_def findUnique_email_def
        create_def issue_tokens_def Let_def)
qed

theorem register_production_config_error_after_create_witness:
  "passes_validation mock ann \<and> \<not> email_persisted empty_db (email ann)
   \<and> NODE_ENV production_without_secrets = Some (js ''production'')
   \<and> JWT_SECRET production_without_secrets = None
   \<and> error (fst (AuthService_register mock production_without_secrets ann empty_db))
       = Some (js ''Server configuration error'')
   \<and> map user_email
        (rows (snd (AuthService_register mock production_without_secrets ann empty_db)))
       = [js ''a@test.io'']"
proof -
  have n: "NODE_ENV production_without_secrets = Some (js ''production'')"
    and j: "JWT_SECRET production_without_secrets = None"
    by (simp_all add: production_without_secrets_def)
  from j have d: "JWT_SECRET production_without_secrets = None
      \<or> JWT_REFRESH_SECRET production_without_secrets = None" by simp
  from register_production_config_error_after_create
         [OF ann_passes_validation ann_not_persisted n d]
       ann_passes_validation ann_not_persisted n j
  show ?thesis
    by (simp add: failure_def empty_db_def ann_def)
qed

end
